theory Spec2Isabelle
  imports Complex_Main
begin

section \<open>Strings as the handlers use them\<close>

text \<open>
  A JavaScript string is a sequence of UTF-16 code units. It is modelled as \<open>string\<close>,
  each \<open>char\<close> standing for the code unit of the same number, so that \<open>length\<close> is
  \<open>.length\<close>; the model covers the strings whose code units lie below \<open>0x100\<close> (ASCII and
  the Latin-1 supplement). \<open>String.prototype.trim\<close> strips white space and line terminators
  at both ends; those below \<open>0x100\<close> are TAB, LF, VT, FF, CR, SPACE and NO-BREAK SPACE
  (\<open>U+00A0\<close>).
\<close>

definition isWhiteSpace :: "char \<Rightarrow> bool" where
  "isWhiteSpace c = (c = CHR 0x09 \<or> c = CHR 0x0A \<or> c = CHR 0x0B \<or> c = CHR 0x0C
                     \<or> c = CHR 0x0D \<or> c = CHR '' '' \<or> c = CHR 0xA0)"

definition trim :: "string \<Rightarrow> string" where
  "trim s = rev (dropWhile isWhiteSpace (rev (dropWhile isWhiteSpace s)))"

fun startsWith :: "string \<Rightarrow> string \<Rightarrow> bool" where
  "startsWith s [] = True"
| "startsWith [] (p # ps) = False"
| "startsWith (c # cs) (p # ps) = (c = p \<and> startsWith cs ps)"

text \<open>\<open>s.includes(sub)\<close>: \<open>sub\<close> occurs in \<open>s\<close> at some offset.\<close>

fun includesStr :: "string \<Rightarrow> string \<Rightarrow> bool" where
  "includesStr [] sub = startsWith [] sub"
| "includesStr (c # cs) sub = (startsWith (c # cs) sub \<or> includesStr cs sub)"

section \<open>The video screen: state and collaborators\<close>

text \<open>
  \<open>src/screens/VideoPlayerScreen.tsx\<close>. Times are milliseconds, modelled as \<open>int\<close>.
  The commands a handler sends to the player, to the orientation service and to the alert
  dialog are appended to logs in the state, so that "issues exactly one command" is a
  statement about the log. A handler reads the state of the render it was created in; the
  model runs each handler on the current state, that is, after the previous update has
  been rendered. Only the handlers are modelled: the effect that calls \<open>fadeInControls\<close>
  again whenever \<open>isPlaying\<close> changes is run by React and is not wired into them.
\<close>

datatype player_cmd = PauseAsync | PlayAsync | SetPositionAsync int

datatype OrientationLock = LANDSCAPE_LEFT | PORTRAIT

text \<open>
  The completion callbacks handed to \<open>Animated.timing(...).start(cb)\<close>. The fade-in
  callback closes over the \<open>isPlaying\<close> of the render in which \<open>fadeInControls\<close> ran.
\<close>

datatype anim_callback = FadeInDone bool | FadeOutDone

record screen =
  videoRef :: bool
  currentVideoUrl :: string
  inputVideoUrl :: string
  isPlaying :: bool
  isFullscreen :: bool
  duration :: int
  position :: int
  isBuffering :: bool
  controlsVisible :: bool
  isSeeking :: bool
  hideControlsTimer :: "nat option"
  timers :: "nat list"
  nextHandle :: nat
  animations :: "anim_callback list"
  playerCmds :: "player_cmd list"
  orientationLocks :: "OrientationLock list"
  alerts :: "(string \<times> string) list"

text \<open>
  \<open>videoRef\<close> is whether \<open>videoRef.current\<close> holds the mounted player. \<open>hideControlsTimer\<close>
  is the ref holding the last handle returned by \<open>setTimeout\<close>; \<open>timers\<close> are the
  handles that are armed (neither fired nor cleared); \<open>animations\<close> are the started
  animations whose completion callback has not run yet, oldest first.
\<close>

definition INITIAL_HLS_URL :: string where
  "INITIAL_HLS_URL = ''https://test-streams.mux.dev/x36xhzz/x36xhzz.m3u8''"

definition SKIP_TIME_MS :: int where
  "SKIP_TIME_MS = 10000"

definition initialScreen :: screen where
  "initialScreen = \<lparr> videoRef = True, currentVideoUrl = INITIAL_HLS_URL,
     inputVideoUrl = INITIAL_HLS_URL, isPlaying = False, isFullscreen = False,
     duration = 0, position = 0, isBuffering = False, controlsVisible = True,
     isSeeking = False, hideControlsTimer = None, timers = [], nextHandle = 1,
     animations = [], playerCmds = [], orientationLocks = [], alerts = [] \<rparr>"

subsection \<open>Timers and the control overlay\<close>

definition clearTimeout :: "nat \<Rightarrow> screen \<Rightarrow> screen" where
  "clearTimeout h st = st\<lparr> timers := removeAll h (timers st) \<rparr>"

text \<open>\<open>hideControlsTimer.current = setTimeout(fadeOutControls, CONTROL_FADE_TIMEOUT)\<close>\<close>

definition armHideTimer :: "screen \<Rightarrow> screen" where
  "armHideTimer st = st\<lparr> timers := timers st @ [nextHandle st],
                          hideControlsTimer := Some (nextHandle st),
                          nextHandle := Suc (nextHandle st) \<rparr>"

definition fadeOutControls :: "screen \<Rightarrow> screen" where
  "fadeOutControls st = st\<lparr> animations := animations st @ [FadeOutDone] \<rparr>"

definition fadeInControls :: "screen \<Rightarrow> screen" where
  "fadeInControls st =
     (let st1 = (case hideControlsTimer st of None \<Rightarrow> st | Some h \<Rightarrow> clearTimeout h st);
          st2 = st1\<lparr> controlsVisible := True \<rparr>
      in st2\<lparr> animations := animations st2 @ [FadeInDone (isPlaying st)] \<rparr>)"

text \<open>What a completion callback does when the animation library invokes it.\<close>

fun callback :: "anim_callback \<Rightarrow> screen \<Rightarrow> screen" where
  "callback (FadeInDone playing) st = (if playing then armHideTimer st else st)"
| "callback FadeOutDone st = st\<lparr> controlsVisible := False \<rparr>"

text \<open>
  The animation library invokes the completion callback of the oldest started animation
  (when it has run its course, or when a newer animation on the same value stops it).
\<close>

definition animationEnds :: "screen \<Rightarrow> screen" where
  "animationEnds st =
     (case animations st of [] \<Rightarrow> st
      | cb # rest \<Rightarrow> callback cb (st\<lparr> animations := rest \<rparr>))"

text \<open>An armed timer fires: it leaves the armed set and runs \<open>fadeOutControls\<close>.\<close>

definition timerFires :: "nat \<Rightarrow> screen \<Rightarrow> screen" where
  "timerFires h st =
     (if h \<in> set (timers st) then fadeOutControls (st\<lparr> timers := removeAll h (timers st) \<rparr>)
      else st)"

subsection \<open>Playback status\<close>

record AVPlaybackStatusSuccess =
  positionMillis :: int
  durationMillis :: "int option"
  statusIsPlaying :: bool
  statusIsBuffering :: bool
  didJustFinish :: bool

datatype AVPlaybackStatus = NotLoaded | Loaded AVPlaybackStatusSuccess

text \<open>\<open>v || d\<close> on a number that may be undefined: \<open>d\<close> when \<open>v\<close> is undefined or 0.\<close>

definition orElse :: "int option \<Rightarrow> int \<Rightarrow> int" where
  "orElse v d = (case v of None \<Rightarrow> d | Some x \<Rightarrow> if x = 0 then d else x)"

definition sendToPlayer :: "player_cmd \<Rightarrow> screen \<Rightarrow> screen" where
  "sendToPlayer c st = st\<lparr> playerCmds := playerCmds st @ [c] \<rparr>"

text \<open>\<open>videoRef.current?.cmd()\<close>\<close>

definition sendIfMounted :: "player_cmd \<Rightarrow> screen \<Rightarrow> screen" where
  "sendIfMounted c st = (if videoRef st then sendToPlayer c st else st)"

definition handlePlaybackStatusUpdate :: "AVPlaybackStatus \<Rightarrow> screen \<Rightarrow> screen" where
  "handlePlaybackStatusUpdate status st =
     (case status of
        NotLoaded \<Rightarrow> st
      | Loaded successStatus \<Rightarrow>
          (let st1 = (if \<not> isSeeking st
                      then st\<lparr> position := orElse (Some (positionMillis successStatus)) 0 \<rparr>
                      else st);
               st2 = st1\<lparr> isPlaying := statusIsPlaying successStatus \<rparr>;
               st3 = st2\<lparr> duration := orElse (durationMillis successStatus) 0 \<rparr>;
               st4 = st3\<lparr> isBuffering := statusIsBuffering successStatus \<rparr>
           in if didJustFinish successStatus
              then sendIfMounted (SetPositionAsync 0) (st4\<lparr> isPlaying := False \<rparr>)
              else st4))"

subsection \<open>Seeking and skipping\<close>

definition handleSeekStart :: "screen \<Rightarrow> screen" where
  "handleSeekStart st = sendIfMounted PauseAsync (st\<lparr> isSeeking := True \<rparr>)"

definition handleSeek :: "int \<Rightarrow> screen \<Rightarrow> screen" where
  "handleSeek newPosition st =
     (if videoRef st
      then fadeInControls ((sendToPlayer (SetPositionAsync newPosition) st)
                             \<lparr> position := newPosition \<rparr>)
      else st)"

text \<open>
  The slider hands \<open>onSlidingComplete\<close> a number, or an array whose first element is
  the value (\<open>Array.isArray(value) ? value[0] : value\<close>).
\<close>

datatype slider_value = Number int | Array int "int list"

fun sliderPosition :: "slider_value \<Rightarrow> int" where
  "sliderPosition (Number v) = v"
| "sliderPosition (Array v vs) = v"

definition handleSeekComplete :: "slider_value \<Rightarrow> screen \<Rightarrow> screen" where
  "handleSeekComplete v st =
     (let newPosition = sliderPosition v;
          st1 = handleSeek newPosition st;
          st2 = sendIfMounted PlayAsync st1
      in st2\<lparr> isSeeking := False \<rparr>)"

datatype direction = Forward | Backward

definition handleSkip :: "direction \<Rightarrow> screen \<Rightarrow> screen" where
  "handleSkip dir st =
     (if videoRef st
      then (let newPosition = (case dir of
                                 Forward \<Rightarrow> min (position st + SKIP_TIME_MS) (duration st)
                               | Backward \<Rightarrow> max (position st - SKIP_TIME_MS) 0)
            in fadeInControls ((sendToPlayer (SetPositionAsync newPosition) st)
                                 \<lparr> position := newPosition \<rparr>))
      else st)"

subsection \<open>Fullscreen and orientation\<close>





subsection \<open>Switching the stream\<close>

definition handleUrlChange :: "screen \<Rightarrow> screen" where
  "handleUrlChange st =
     (if length (trim (inputVideoUrl st)) > 10 \<and> includesStr (inputVideoUrl st) ''http''
      then st\<lparr> currentVideoUrl := inputVideoUrl st, isPlaying := False, duration := 0,
               position := 0,
               alerts := alerts st @ [(''URL Changed'', ''New stream source loaded.'')] \<rparr>
      else st\<lparr> alerts := alerts st
                  @ [(''Invalid URL'', ''Please enter a valid stream URL.'')] \<rparr>)"

text \<open>
  The stream input is typed into the text field (\<open>onChangeText={setInputVideoUrl}\<close>) and
  then submitted with the "Load Stream" button (\<open>onPress={handleUrlChange}\<close>).
\<close>

definition loadStream :: "string \<Rightarrow> screen \<Rightarrow> screen" where
  "loadStream url st = handleUrlChange (st\<lparr> inputVideoUrl := url \<rparr>)"

subsection \<open>Runs of events\<close>

fun onStatusTicks :: "AVPlaybackStatus list \<Rightarrow> screen \<Rightarrow> screen" where
  "onStatusTicks [] st = st"
| "onStatusTicks (t # ts) st = onStatusTicks ts (handlePlaybackStatusUpdate t st)"


fun onSkips :: "direction list \<Rightarrow> screen \<Rightarrow> screen" where
  "onSkips [] st = st"
| "onSkips (d # ds) st = onSkips ds (handleSkip d st)"

text \<open>
  A call of \<open>fadeInControls\<close> whose fade-in animation ends, and whose completion callback
  therefore runs, before anything else happens.
\<close>

definition showControlsSettled :: "screen \<Rightarrow> screen" where
  "showControlsSettled st = animationEnds (fadeInControls st)"

text \<open>No timer is armed except possibly the one whose handle the ref holds.\<close>

definition heldTimerOnly :: "screen \<Rightarrow> bool" where
  "heldTimerOnly st =
     (case hideControlsTimer st of None \<Rightarrow> timers st = []
      | Some h \<Rightarrow> timers st = [] \<or> timers st = [h])"

text \<open>The specification's clamp of \<open>x\<close> to the interval from \<open>lo\<close> to \<open>hi\<close>.\<close>

definition clampSpec :: "int \<Rightarrow> int \<Rightarrow> int \<Rightarrow> int" where
  "clampSpec lo hi x = max lo (min hi x)"

text \<open>Two status snapshots: ordinary playback, and a position beyond the duration.\<close>

definition playingTick :: AVPlaybackStatus where
  "playingTick = Loaded \<lparr> positionMillis = 1000, durationMillis = Some 60000,
     statusIsPlaying = True, statusIsBuffering = False, didJustFinish = False \<rparr>"

definition overrunTick :: AVPlaybackStatus where
  "overrunTick = Loaded \<lparr> positionMillis = 150000, durationMillis = Some 100000,
     statusIsPlaying = True, statusIsBuffering = False, didJustFinish = False \<rparr>"

section \<open>Notification scheduling\<close>

text \<open>
  \<open>scheduleLocalNotification\<close> of the notification service. JavaScript numbers are
  modelled as \<open>real\<close>. The first argument stands for the value drawn by \<open>Math.random()\<close>,
  which lies in the half-open interval from 0 to 1; the result is the request handed to
  \<open>Notifications.scheduleNotificationAsync\<close>.
\<close>

definition MIN_DELAY :: int where
  "MIN_DELAY = 2"

definition MAX_DELAY :: int where
  "MAX_DELAY = 5"

record ScheduleOptions =
  title :: string
  body :: string
  delaySeconds :: "real option"
  data :: "(string \<times> string) list option"

record NotificationRequest =
  contentTitle :: string
  contentBody :: string
  contentData :: "(string \<times> string) list"
  triggerSeconds :: real
  triggerChannelId :: string

definition scheduleLocalNotification :: "real \<Rightarrow> ScheduleOptions \<Rightarrow> NotificationRequest" where
  "scheduleLocalNotification random opts =
     (let delay = (case delaySeconds opts of
                     Some d \<Rightarrow> d
                   | None \<Rightarrow>
                       of_int (\<lfloor>random * of_int (MAX_DELAY - MIN_DELAY + 1)\<rfloor> + MIN_DELAY))
      in \<lparr> contentTitle = title opts, contentBody = body opts,
           contentData = (case data opts of None \<Rightarrow> [] | Some d \<Rightarrow> d),
           triggerSeconds = delay, triggerChannelId = ''default'' \<rparr>)"

section \<open>URL validation\<close>

text \<open>
  \<open>validateAndNormalizeUrl\<close> of the URL service. The platform's \<open>URL\<close> constructor is a
  parameter \<open>newURL\<close>: it yields the parsed object, of which the function reads
  \<open>protocol\<close> and \<open>href\<close>, or \<open>None\<close> when the constructor throws.
\<close>

record UrlValidationResult =
  isValid :: bool
  normalizedUrl :: "string option"

record URL =
  protocol :: string
  href :: string

text \<open>
  \<open>toLowerCase\<close> on code units below \<open>0x100\<close>: the upper-case letters are \<open>A\<close> to \<open>Z\<close>
  (\<open>0x41\<close> to \<open>0x5A\<close>) and \<open>0xC0\<close> to \<open>0xDE\<close> without the multiplication sign \<open>0xD7\<close>;
  the lower-case letter is \<open>0x20\<close> further on, which for these units is the same unit with
  the bit of weight \<open>0x20\<close> set.
\<close>

definition toLowerChar :: "char \<Rightarrow> char" where
  "toLowerChar c =
     (let n = (of_char c :: nat)
      in if (0x41 \<le> n \<and> n \<le> 0x5A) \<or> (0xC0 \<le> n \<and> n \<le> 0xDE \<and> n \<noteq> 0xD7)
         then (case c of Char b0 b1 b2 b3 b4 b5 b6 b7 \<Rightarrow> Char b0 b1 b2 b3 b4 True b6 b7)
         else c)"

definition toLowerCase :: "string \<Rightarrow> string" where
  "toLowerCase s = map toLowerChar s"

text \<open>
  The test \<open>/^https?:\/\//i\<close>. Without the \<open>u\<close> flag, ignoring case never equates a
  code unit from \<open>0x80\<close> on with an ASCII letter, so the pattern matches exactly when the
  lower-cased input starts with one of the two prefixes.
\<close>

definition hasHttpScheme :: "string \<Rightarrow> bool" where
  "hasHttpScheme s =
     (startsWith (toLowerCase s) ''http://'' \<or> startsWith (toLowerCase s) ''https://'')"

definition validateAndNormalizeUrl ::
    "(string \<Rightarrow> URL option) \<Rightarrow> string \<Rightarrow> UrlValidationResult" where
  "validateAndNormalizeUrl newURL rawUrl =
     (let trimmedUrl = trim rawUrl in
      if trimmedUrl = [] then \<lparr> isValid = False, normalizedUrl = None \<rparr>
      else
        (let urlToTest = (if \<not> hasHttpScheme trimmedUrl then ''https://'' @ trimmedUrl
                          else trimmedUrl)
         in case newURL urlToTest of
              None \<Rightarrow> \<lparr> isValid = False, normalizedUrl = None \<rparr>
            | Some urlObject \<Rightarrow>
                (let protocol = toLowerCase (protocol urlObject)
                 in if protocol = ''http:'' \<or> protocol = ''https:''
                    then \<lparr> isValid = True, normalizedUrl = Some (href urlObject) \<rparr>
                    else \<lparr> isValid = False, normalizedUrl = None \<rparr>)))"

text \<open>A parser that accepts one address, to run the function on.\<close>

definition googleOnly :: "string \<Rightarrow> URL option" where
  "googleOnly s =
     (if s = ''https://google.com''
      then Some \<lparr> protocol = ''https:'', href = ''https://google.com/'' \<rparr>
      else None)"

section \<open>Status ticks\<close>

lemma tick_isSeeking: "isSeeking (handlePlaybackStatusUpdate t st) = isSeeking st"
  by (cases t)
     (simp_all add: handlePlaybackStatusUpdate_def Let_def sendIfMounted_def sendToPlayer_def)

lemma ticks_isSeeking: "isSeeking (onStatusTicks ts st) = isSeeking st"
  by (induction ts arbitrary: st) (simp_all add: tick_isSeeking)

lemma ticks_append: "onStatusTicks (ts @ us) st = onStatusTicks us (onStatusTicks ts st)"
  by (induction ts arbitrary: st) simp_all

lemma tick_position_idle:
  "\<not> isSeeking st \<Longrightarrow> position (handlePlaybackStatusUpdate (Loaded s) st) = positionMillis s"
  by (simp add: handlePlaybackStatusUpdate_def Let_def sendIfMounted_def sendToPlayer_def
        orElse_def)

lemma tick_position_seeking:
  "isSeeking st \<Longrightarrow> position (handlePlaybackStatusUpdate t st) = position st"
  by (cases t)
     (simp_all add: handlePlaybackStatusUpdate_def Let_def sendIfMounted_def sendToPlayer_def)

lemma ticks_position_seeking:
  "isSeeking st \<Longrightarrow> position (onStatusTicks ts st) = position st"
  by (induction ts arbitrary: st) (simp_all add: tick_position_seeking tick_isSeeking)

lemma tick_fields:
  "duration (handlePlaybackStatusUpdate (Loaded s) st) = orElse (durationMillis s) 0"
  "isPlaying (handlePlaybackStatusUpdate (Loaded s) st)
     = (statusIsPlaying s \<and> \<not> didJustFinish s)"
  "isBuffering (handlePlaybackStatusUpdate (Loaded s) st) = statusIsBuffering s"
  by (simp_all add: handlePlaybackStatusUpdate_def Let_def sendIfMounted_def sendToPlayer_def)

text \<open>
  Claim C1, as the code has it. While no seek gesture is active, after any run of status
  ticks that ends with a loaded snapshot the displayed position is that snapshot's
  \<open>positionMillis\<close>, exactly as reported: the handler does not clamp. It agrees with the
  clamp to the interval from 0 to the duration whenever the reported position already lies
  in that interval. A status that is not loaded changes nothing.
\<close>

theorem status_tick_sets_reported_position:
  assumes "\<not> isSeeking st"
  shows "position (onStatusTicks (ts @ [Loaded s]) st) = positionMillis s
       \<and> (0 \<le> positionMillis s
            \<and> positionMillis s \<le> duration (onStatusTicks (ts @ [Loaded s]) st)
          \<longrightarrow> position (onStatusTicks (ts @ [Loaded s]) st)
                = clampSpec 0 (duration (onStatusTicks (ts @ [Loaded s]) st)) (positionMillis s))
       \<and> handlePlaybackStatusUpdate NotLoaded st = st"
proof -
  have idle: "\<not> isSeeking (onStatusTicks ts st)"
    using assms by (simp add: ticks_isSeeking)
  have pos: "position (onStatusTicks (ts @ [Loaded s]) st) = positionMillis s"
    using idle by (simp add: ticks_append tick_position_idle)
  have "handlePlaybackStatusUpdate NotLoaded st = st"
    by (simp add: handlePlaybackStatusUpdate_def)
  with pos show ?thesis
    by (simp add: clampSpec_def)
qed

text \<open>The theorem at the first screen, for a status that is not loaded and then a tick at 5 s.\<close>

theorem status_tick_sets_reported_position_witness:
  "\<not> isSeeking initialScreen
   \<and> position (onStatusTicks ([NotLoaded] @ [Loaded \<lparr> positionMillis = 5000,
          durationMillis = Some 100000, statusIsPlaying = True, statusIsBuffering = False,
          didJustFinish = False \<rparr>]) initialScreen) = 5000"
proof -
  have idle: "\<not> isSeeking initialScreen"
    by (simp add: initialScreen_def)
  from status_tick_sets_reported_position [OF idle, of "[NotLoaded]" "\<lparr> positionMillis = 5000,
          durationMillis = Some 100000, statusIsPlaying = True, statusIsBuffering = False,
          didJustFinish = False \<rparr>", THEN conjunct1] idle
  show ?thesis by simp
qed

text \<open>
  Claim C1 as stated fails: a tick reporting 150000 ms of a 100000 ms stream, arriving while
  no seek is active, leaves the displayed position at 150000, not at the clamp.
\<close>

theorem status_tick_position_not_clamped:
  "position (handlePlaybackStatusUpdate overrunTick initialScreen)
     \<noteq> clampSpec 0 (duration (handlePlaybackStatusUpdate overrunTick initialScreen)) 150000"
  by (simp add: overrunTick_def handlePlaybackStatusUpdate_def Let_def initialScreen_def
        orElse_def clampSpec_def)

text \<open>
  Claim C7. A loaded tick with \<open>didJustFinish\<close> leaves \<open>isPlaying\<close> false, and with the
  player mounted it sends the player exactly one command, the seek to 0.
\<close>

theorem finished_tick_rewinds:
  assumes "didJustFinish s"
  shows "isPlaying (handlePlaybackStatusUpdate (Loaded s) st) = False
       \<and> (videoRef st \<longrightarrow> playerCmds (handlePlaybackStatusUpdate (Loaded s) st)
                             = playerCmds st @ [SetPositionAsync 0])"
  using assms
  by (simp add: handlePlaybackStatusUpdate_def Let_def sendIfMounted_def sendToPlayer_def)

text \<open>The theorem at the first screen, for the last tick of a 60 s stream.\<close>

theorem finished_tick_rewinds_witness:
  "didJustFinish \<lparr> positionMillis = 60000, durationMillis = Some 60000, statusIsPlaying = True,
       statusIsBuffering = False, didJustFinish = True \<rparr>
   \<and> videoRef initialScreen
   \<and> \<not> isPlaying (handlePlaybackStatusUpdate (Loaded \<lparr> positionMillis = 60000,
         durationMillis = Some 60000, statusIsPlaying = True, statusIsBuffering = False,
         didJustFinish = True \<rparr>) initialScreen)
   \<and> playerCmds (handlePlaybackStatusUpdate (Loaded \<lparr> positionMillis = 60000,
         durationMillis = Some 60000, statusIsPlaying = True, statusIsBuffering = False,
         didJustFinish = True \<rparr>) initialScreen) = [SetPositionAsync 0]"
proof -
  let ?s = "\<lparr> positionMillis = 60000, durationMillis = Some 60000, statusIsPlaying = True,
       statusIsBuffering = False, didJustFinish = True \<rparr>"
  have fin: "didJustFinish ?s"
    by simp
  have ref: "videoRef initialScreen" and none: "playerCmds initialScreen = []"
    by (simp_all add: initialScreen_def)
  from finished_tick_rewinds [OF fin, of initialScreen] ref none show ?thesis
    by simp
qed

section \<open>Seek commit and skip\<close>

text \<open>
  Claim C4, as the code has it. With the player mounted, \<open>handleSeekComplete\<close> sends the
  player exactly two commands, one seek to the committed value itself and then play, shows
  that value as the position and leaves the seek gesture. The handler does not clamp: the
  seek target is the clamp to the interval from 0 to the duration whenever the committed
  value already lies in it, as the values of a slider ranging from 0 to the duration do.
\<close>

theorem seek_commit_seeks_to_value:
  assumes "videoRef st"
  shows "playerCmds (handleSeekComplete v st)
           = playerCmds st @ [SetPositionAsync (sliderPosition v), PlayAsync]
       \<and> position (handleSeekComplete v st) = sliderPosition v
       \<and> \<not> isSeeking (handleSeekComplete v st)
       \<and> (0 \<le> sliderPosition v \<and> sliderPosition v \<le> duration st
            \<longrightarrow> sliderPosition v = clampSpec 0 (duration st) (sliderPosition v))"
  using assms
  by (simp add: handleSeekComplete_def handleSeek_def Let_def sendIfMounted_def sendToPlayer_def
        fadeInControls_def clearTimeout_def clampSpec_def split: option.split)

text \<open>The theorem for a gesture started during playback and committed at 30 s of 60 s.\<close>

theorem seek_commit_seeks_to_value_witness:
  "videoRef (handleSeekStart (handlePlaybackStatusUpdate playingTick initialScreen))
   \<and> playerCmds (handleSeekComplete (Number 30000)
        (handleSeekStart (handlePlaybackStatusUpdate playingTick initialScreen)))
       = [PauseAsync, SetPositionAsync 30000, PlayAsync]
   \<and> 30000 = clampSpec 0 60000 30000"
proof -
  let ?st = "handleSeekStart (handlePlaybackStatusUpdate playingTick initialScreen)"
  have ref: "videoRef ?st" and cmds: "playerCmds ?st = [PauseAsync]"
    and dur: "duration ?st = 60000"
    by (simp_all add: handleSeekStart_def handlePlaybackStatusUpdate_def playingTick_def
          initialScreen_def Let_def sendIfMounted_def sendToPlayer_def orElse_def)
  from seek_commit_seeks_to_value [OF ref, of "Number 30000"] ref cmds dur show ?thesis
    by simp
qed

text \<open>
  Claim C4 as stated fails: committing 90000 ms while the duration is 60000 ms sends no seek
  to the clamped value 60000 (the seek goes to 90000).
\<close>

theorem seek_commit_target_not_clamped:
  "SetPositionAsync (clampSpec 0
       (duration (handleSeekStart (handlePlaybackStatusUpdate playingTick initialScreen))) 90000)
     \<notin> set (playerCmds (handleSeekComplete (Number 90000)
              (handleSeekStart (handlePlaybackStatusUpdate playingTick initialScreen))))
   \<and> playerCmds (handleSeekComplete (Number 90000)
         (handleSeekStart (handlePlaybackStatusUpdate playingTick initialScreen)))
       = [PauseAsync, SetPositionAsync 90000, PlayAsync]"
  by (simp add: playingTick_def handlePlaybackStatusUpdate_def Let_def initialScreen_def
        orElse_def clampSpec_def handleSeekComplete_def handleSeek_def handleSeekStart_def
        sendIfMounted_def sendToPlayer_def fadeInControls_def clearTimeout_def)

lemma skip_position:
  "videoRef st \<Longrightarrow> position (handleSkip Forward st) = min (position st + 10000) (duration st)"
  "videoRef st \<Longrightarrow> position (handleSkip Backward st) = max (position st - 10000) 0"
  by (simp_all add: handleSkip_def Let_def sendToPlayer_def fadeInControls_def clearTimeout_def
        SKIP_TIME_MS_def split: option.split)

lemma skip_frame:
  "duration (handleSkip d st) = duration st" "videoRef (handleSkip d st) = videoRef st"
  by (simp_all add: handleSkip_def Let_def sendToPlayer_def fadeInControls_def clearTimeout_def
        split: option.split)

lemma skip_in_bounds:
  "0 \<le> position st \<Longrightarrow> position st \<le> duration st \<Longrightarrow>
     0 \<le> position (handleSkip d st) \<and> position (handleSkip d st) \<le> duration st"
  by (cases d)
     (simp_all add: handleSkip_def Let_def sendToPlayer_def fadeInControls_def clearTimeout_def
        SKIP_TIME_MS_def split: option.split)

lemma skips_in_bounds:
  "0 \<le> position st \<Longrightarrow> position st \<le> duration st \<Longrightarrow>
     0 \<le> position (onSkips ds st) \<and> position (onSkips ds st) \<le> duration st"
proof (induction ds arbitrary: st)
  case Nil
  then show ?case by simp
next
  case (Cons d ds)
  from skip_in_bounds [OF Cons.prems]
  have "0 \<le> position (handleSkip d st)"
    and "position (handleSkip d st) \<le> duration (handleSkip d st)"
    by (simp_all add: skip_frame)
  from Cons.IH [OF this] show ?case
    by (simp add: skip_frame)
qed

text \<open>
  Claim C6, as the code has it. With the player mounted, a forward skip sets the position to the minimum of
  the position plus 10000 and the duration, a backward skip to the maximum of the position
  minus 10000 and 0; so a forward skip never ends beyond the duration and a backward skip
  never below 0. Any run of skips from a position between 0 and the duration stays between
  0 and the duration. At position 5000 of 120000 a backward skip gives 0.
\<close>

theorem skip_stays_in_bounds:
  assumes "videoRef st"
  shows "position (handleSkip Forward st) = min (position st + 10000) (duration st)
       \<and> position (handleSkip Backward st) = max (position st - 10000) 0
       \<and> position (handleSkip Forward st) \<le> duration st
       \<and> 0 \<le> position (handleSkip Backward st)
       \<and> (0 \<le> position st \<and> position st \<le> duration st
            \<longrightarrow> 0 \<le> position (onSkips ds st) \<and> position (onSkips ds st) \<le> duration st)
       \<and> position (handleSkip Backward (st\<lparr> position := 5000, duration := 120000 \<rparr>)) = 0"
proof -
  have "videoRef (st\<lparr> position := 5000, duration := 120000 \<rparr>)"
    using assms by simp
  from skip_position(2) [OF this]
  have "position (handleSkip Backward (st\<lparr> position := 5000, duration := 120000 \<rparr>)) = 0"
    by simp
  then show ?thesis
    using assms skips_in_bounds [of st ds] by (simp add: skip_position)
qed

text \<open>The theorem at 5 s of a 12 s stream, for a skip back and two skips forward.\<close>

theorem skip_stays_in_bounds_witness:
  "videoRef (initialScreen\<lparr> position := 5000, duration := 12000 \<rparr>)
   \<and> position (handleSkip Forward (initialScreen\<lparr> position := 5000, duration := 12000 \<rparr>))
       = 12000
   \<and> position (handleSkip Backward (initialScreen\<lparr> position := 5000, duration := 12000 \<rparr>)) = 0
   \<and> 0 \<le> position (onSkips [Backward, Forward, Forward]
              (initialScreen\<lparr> position := 5000, duration := 12000 \<rparr>))
   \<and> position (onSkips [Backward, Forward, Forward]
         (initialScreen\<lparr> position := 5000, duration := 12000 \<rparr>)) \<le> 12000"
proof -
  let ?st = "initialScreen\<lparr> position := 5000, duration := 12000 \<rparr>"
  have ref: "videoRef ?st"
    by (simp add: initialScreen_def)
  have pos: "position ?st = 5000" and dur: "duration ?st = 12000"
    by simp_all
  from skip_stays_in_bounds [OF ref, of "[Backward, Forward, Forward]"] ref
  show ?thesis
    unfolding pos dur by simp
qed

text \<open>
  Claim C6 as stated fails for a position that is out of bounds already, which the
  unclamped status ticks can produce: after a tick reporting 150000 ms of a 100000 ms
  stream, a backward skip gives 140000, beyond the duration.
\<close>

theorem skip_back_from_overrun_out_of_bounds:
  "\<not> position (handleSkip Backward (handlePlaybackStatusUpdate overrunTick initialScreen))
        \<le> duration (handleSkip Backward (handlePlaybackStatusUpdate overrunTick initialScreen))
   \<and> position (handleSkip Backward (handlePlaybackStatusUpdate overrunTick initialScreen))
       = 140000
   \<and> duration (handleSkip Backward (handlePlaybackStatusUpdate overrunTick initialScreen))
       = 100000"
  by (simp add: handlePlaybackStatusUpdate_def overrunTick_def initialScreen_def Let_def
        orElse_def handleSkip_def sendToPlayer_def fadeInControls_def clearTimeout_def
        SKIP_TIME_MS_def)

section \<open>The seek gesture\<close>

lemma tick_videoRef: "videoRef (handlePlaybackStatusUpdate t st) = videoRef st"
  by (cases t)
     (simp_all add: handlePlaybackStatusUpdate_def Let_def sendIfMounted_def sendToPlayer_def)

lemma ticks_videoRef: "videoRef (onStatusTicks ts st) = videoRef st"
  by (induction ts arbitrary: st) (simp_all add: tick_videoRef)

lemma skip_isSeeking: "isSeeking (handleSkip d st) = isSeeking st"
  by (simp add: handleSkip_def Let_def sendToPlayer_def fadeInControls_def clearTimeout_def
        split: option.split)

text \<open>
  Claim C3, as the code has it. After \<open>handleSeekStart\<close> and any run of status ticks the
  seek gesture is still active and the displayed position is the one the gesture started
  from; one more loaded tick leaves the position alone and takes the duration, the playing
  flag (forced to false by \<open>didJustFinish\<close>) and the buffering flag from the snapshot. The
  position is protected from ticks only: the screen has no handler for drag updates, and a
  skip pressed during the gesture does not end it and, with the player mounted, sets the
  position to its usual target.
\<close>

theorem seek_gesture_position_writes:
  "position (onStatusTicks ts (handleSeekStart st)) = position st
   \<and> isSeeking (onStatusTicks ts (handleSeekStart st))
   \<and> position (handlePlaybackStatusUpdate (Loaded s) (onStatusTicks ts (handleSeekStart st)))
       = position st
   \<and> duration (handlePlaybackStatusUpdate (Loaded s) (onStatusTicks ts (handleSeekStart st)))
       = orElse (durationMillis s) 0
   \<and> isPlaying (handlePlaybackStatusUpdate (Loaded s) (onStatusTicks ts (handleSeekStart st)))
       = (statusIsPlaying s \<and> \<not> didJustFinish s)
   \<and> isBuffering (handlePlaybackStatusUpdate (Loaded s) (onStatusTicks ts (handleSeekStart st)))
       = statusIsBuffering s
   \<and> isSeeking (handleSkip d (onStatusTicks ts (handleSeekStart st)))
   \<and> (videoRef st \<longrightarrow>
        position (handleSkip Forward (onStatusTicks ts (handleSeekStart st)))
          = min (position st + 10000) (duration (onStatusTicks ts (handleSeekStart st)))
        \<and> position (handleSkip Backward (onStatusTicks ts (handleSeekStart st)))
          = max (position st - 10000) 0)"
proof -
  have start: "isSeeking (handleSeekStart st)" "position (handleSeekStart st) = position st"
    "videoRef (handleSeekStart st) = videoRef st"
    by (simp_all add: handleSeekStart_def sendIfMounted_def sendToPlayer_def)
  have seeking: "isSeeking (onStatusTicks ts (handleSeekStart st))"
    using start by (simp add: ticks_isSeeking)
  have kept: "position (onStatusTicks ts (handleSeekStart st)) = position st"
    using start by (simp add: ticks_position_seeking)
  have ref: "videoRef (onStatusTicks ts (handleSeekStart st)) = videoRef st"
    using start by (simp add: ticks_videoRef)
  have skips: "position (handleSkip Forward (onStatusTicks ts (handleSeekStart st)))
          = min (position st + 10000) (duration (onStatusTicks ts (handleSeekStart st)))
        \<and> position (handleSkip Backward (onStatusTicks ts (handleSeekStart st)))
          = max (position st - 10000) 0" if "videoRef st"
    using that ref kept by (simp add: skip_position)
  show ?thesis
    using seeking kept skips
    by (simp add: tick_position_seeking tick_fields skip_isSeeking)
qed

text \<open>The theorem for a gesture started at 1 s of playback, two ticks and a skip back.\<close>

theorem seek_gesture_position_writes_witness:
  "videoRef (handlePlaybackStatusUpdate playingTick initialScreen)
   \<and> position (onStatusTicks [playingTick, overrunTick]
        (handleSeekStart (handlePlaybackStatusUpdate playingTick initialScreen))) = 1000
   \<and> position (handleSkip Backward (onStatusTicks [playingTick, overrunTick]
        (handleSeekStart (handlePlaybackStatusUpdate playingTick initialScreen)))) = 0"
proof -
  let ?st = "handlePlaybackStatusUpdate playingTick initialScreen"
  have ref: "videoRef ?st" and pos: "position ?st = 1000"
    by (simp_all add: handlePlaybackStatusUpdate_def playingTick_def initialScreen_def Let_def
          orElse_def)
  from seek_gesture_position_writes [of "[playingTick, overrunTick]" ?st _ Backward] ref
  show ?thesis
    unfolding pos by simp
qed

text \<open>
  Claim C3 as stated fails in its last clause: during a seek gesture started at 1000 ms a
  forward skip, which is no drag update, moves the displayed position to 11000 while the
  gesture stays active.
\<close>

theorem skip_moves_position_during_seek:
  "isSeeking (handleSeekStart (handlePlaybackStatusUpdate playingTick initialScreen))
   \<and> position (handleSeekStart (handlePlaybackStatusUpdate playingTick initialScreen)) = 1000
   \<and> isSeeking (handleSkip Forward
        (handleSeekStart (handlePlaybackStatusUpdate playingTick initialScreen)))
   \<and> position (handleSkip Forward
        (handleSeekStart (handlePlaybackStatusUpdate playingTick initialScreen))) = 11000"
  by (simp add: handlePlaybackStatusUpdate_def playingTick_def initialScreen_def Let_def
        orElse_def handleSeekStart_def handleSkip_def sendIfMounted_def sendToPlayer_def
        fadeInControls_def clearTimeout_def SKIP_TIME_MS_def)

section \<open>Fullscreen and orientation locks\<close>





section \<open>Switching the stream\<close>

text \<open>
  Claim C8. Loading \<open>not-a-url\<close> only records the input and raises the "Invalid URL"
  alert: the current URL, position, duration and playing flag are unchanged. Loading
  \<open>https://host/new.m3u8\<close> makes it the current URL and resets position and duration to 0
  and the playing flag to false.
\<close>

theorem load_stream_scenarios:
  "loadStream ''not-a-url'' st
     = st\<lparr> inputVideoUrl := ''not-a-url'',
            alerts := alerts st @ [(''Invalid URL'', ''Please enter a valid stream URL.'')] \<rparr>
   \<and> currentVideoUrl (loadStream ''not-a-url'' st) = currentVideoUrl st
   \<and> position (loadStream ''not-a-url'' st) = position st
   \<and> duration (loadStream ''not-a-url'' st) = duration st
   \<and> isPlaying (loadStream ''not-a-url'' st) = isPlaying st
   \<and> currentVideoUrl (loadStream ''https://host/new.m3u8'' st) = ''https://host/new.m3u8''
   \<and> position (loadStream ''https://host/new.m3u8'' st) = 0
   \<and> duration (loadStream ''https://host/new.m3u8'' st) = 0
   \<and> isPlaying (loadStream ''https://host/new.m3u8'' st) = False"
  by (simp add: loadStream_def handleUrlChange_def trim_def isWhiteSpace_def)

section \<open>The auto-hide timer\<close>

lemma fadeIn_clears_held:
  "heldTimerOnly st \<Longrightarrow> timers (fadeInControls st) = []"
  by (auto simp: heldTimerOnly_def fadeInControls_def clearTimeout_def Let_def
           split: option.splits)

lemma settled_step:
  assumes "animations st = []" and "heldTimerOnly st"
  shows "animations (showControlsSettled st) = []"
    and "heldTimerOnly (showControlsSettled st)"
    and "isPlaying (showControlsSettled st) = isPlaying st"
    and "length (timers (showControlsSettled st)) = (if isPlaying st then 1 else 0)"
  using assms
  by (auto simp: showControlsSettled_def animationEnds_def heldTimerOnly_def fadeInControls_def
        clearTimeout_def armHideTimer_def Let_def split: option.splits)

lemma settled_iterate:
  assumes "animations st = []" and "heldTimerOnly st"
  shows "animations ((showControlsSettled ^^ n) st) = []
       \<and> heldTimerOnly ((showControlsSettled ^^ n) st)
       \<and> isPlaying ((showControlsSettled ^^ n) st) = isPlaying st"
proof (induction n)
  case 0
  show ?case using assms by simp
next
  case (Suc n)
  then show ?case by (simp add: settled_step)
qed

lemma held_at_most_one: "heldTimerOnly st \<Longrightarrow> length (timers st) \<le> 1"
  by (auto simp: heldTimerOnly_def split: option.splits)

text \<open>
  What the code achieves. \<open>fadeInControls\<close> cancels the timer whose handle the ref holds
  and arms none itself; the completion callback of its fade-in arms one if \<open>isPlaying\<close>
  was true at the call. As long as each fade-in ends before the next call, at most one
  timer is armed at every moment, and after \<open>n \<ge> 1\<close> calls exactly one is armed when
  playing and none when paused.
\<close>

lemma settled_calls_single_timer:
  assumes "animations st = []" and "heldTimerOnly st"
  shows "timers (fadeInControls ((showControlsSettled ^^ n) st)) = []
       \<and> length (timers ((showControlsSettled ^^ n) st)) \<le> 1
       \<and> (0 < n \<longrightarrow> length (timers ((showControlsSettled ^^ n) st))
                        = (if isPlaying st then 1 else 0))"
proof -
  note inv = settled_iterate [OF assms, of n]
  have cleared: "timers (fadeInControls ((showControlsSettled ^^ n) st)) = []"
    using inv by (simp add: fadeIn_clears_held)
  have bound: "length (timers ((showControlsSettled ^^ n) st)) \<le> 1"
    using inv by (intro held_at_most_one) simp
  have armed: "length (timers ((showControlsSettled ^^ n) st)) = (if isPlaying st then 1 else 0)"
    if "0 < n"
  proof -
    from that obtain m where n: "n = Suc m"
      by (cases n) auto
    note prev = settled_iterate [OF assms, of m]
    from prev have "length (timers (showControlsSettled ((showControlsSettled ^^ m) st)))
        = (if isPlaying st then 1 else 0)"
      by (simp add: settled_step(4))
    then show ?thesis
      by (simp add: n)
  qed
  from cleared bound armed show ?thesis
    by blast
qed

text \<open>
  Claim C5 is broken by the code. The hide timer is armed in the completion callback of the
  fade-in, and the callback does not cancel the timer the ref holds at that moment. During
  playback, with timer 1 armed, two presses of skip within one fade-in cancel timer 1 and
  start two fade-ins; when their callbacks have run, timers 2 and 3 are both armed. The
  ref holds 3 only, so the next call of \<open>fadeInControls\<close> cancels 3 and leaves the stale
  timer 2 armed.
\<close>

theorem two_skips_within_one_fade_in_arm_two_timers:
  "timers (showControlsSettled (handlePlaybackStatusUpdate playingTick initialScreen)) = [1]
   \<and> timers (animationEnds (animationEnds (handleSkip Forward (handleSkip Forward
        (showControlsSettled (handlePlaybackStatusUpdate playingTick initialScreen))))))
       = [2, 3]
   \<and> timers (fadeInControls (animationEnds (animationEnds (handleSkip Forward
        (handleSkip Forward
          (showControlsSettled (handlePlaybackStatusUpdate playingTick initialScreen)))))))
       = [2]"
  by (simp add: handlePlaybackStatusUpdate_def playingTick_def initialScreen_def Let_def
        orElse_def showControlsSettled_def handleSkip_def sendToPlayer_def fadeInControls_def
        clearTimeout_def animationEnds_def armHideTimer_def SKIP_TIME_MS_def)

section \<open>The notification delay\<close>

text \<open>
  Claim C9. When \<open>delaySeconds\<close> is given, the trigger of the scheduled request is exactly
  that delay. When it is omitted, the trigger is an integer between 2 and 5, for every
  value that \<open>Math.random()\<close> can draw.
\<close>

theorem schedule_delay:
  "(delaySeconds opts = Some d \<longrightarrow> triggerSeconds (scheduleLocalNotification random opts) = d)
   \<and> (delaySeconds opts = None \<and> 0 \<le> random \<and> random < 1 \<longrightarrow>
        (\<exists>k::int. 2 \<le> k \<and> k \<le> 5
           \<and> triggerSeconds (scheduleLocalNotification random opts) = of_int k))"
proof -
  have fallback: "\<exists>k::int. 2 \<le> k \<and> k \<le> 5
      \<and> triggerSeconds (scheduleLocalNotification random opts) = of_int k"
    if none: "delaySeconds opts = None" and lo: "0 \<le> random" and hi: "random < 1"
  proof -
    have "0 \<le> \<lfloor>random * 4\<rfloor>"
      using lo by simp
    moreover have "\<lfloor>random * 4\<rfloor> < 4"
      using hi by (simp add: floor_less_iff)
    moreover have "triggerSeconds (scheduleLocalNotification random opts)
        = of_int (\<lfloor>random * 4\<rfloor> + 2)"
      using none by (simp add: scheduleLocalNotification_def MIN_DELAY_def MAX_DELAY_def)
    ultimately show ?thesis
      by (intro exI [of _ "\<lfloor>random * 4\<rfloor> + 2"]) simp
  qed
  have given: "triggerSeconds (scheduleLocalNotification random opts) = d"
    if "delaySeconds opts = Some d"
    using that by (simp add: scheduleLocalNotification_def)
  from fallback given show ?thesis
    by blast
qed

text \<open>The theorem for a delay of 7 s, and for an omitted delay with the draw 0.99.\<close>

theorem schedule_delay_witness:
  "triggerSeconds (scheduleLocalNotification (1 / 2)
      \<lparr> title = ''Loaded'', body = ''Done'', delaySeconds = Some 7, data = None \<rparr>) = 7
   \<and> (\<exists>k::int. 2 \<le> k \<and> k \<le> 5 \<and> triggerSeconds (scheduleLocalNotification (99 / 100)
      \<lparr> title = ''Loaded'', body = ''Done'', delaySeconds = None, data = None \<rparr>) = of_int k)"
  using schedule_delay [of "\<lparr> title = ''Loaded'', body = ''Done'', delaySeconds = Some 7,
        data = None \<rparr>" 7 "1 / 2"]
    schedule_delay [of "\<lparr> title = ''Loaded'', body = ''Done'', delaySeconds = None,
        data = None \<rparr>" 0 "99 / 100"]
  by simp

section \<open>URL validation: results\<close>

lemma dropWhile_all_iff:
  "(\<forall>x \<in> set (dropWhile P xs). P x) \<longleftrightarrow> (\<forall>x \<in> set xs. P x)"
proof
  assume all: "\<forall>x \<in> set (dropWhile P xs). P x"
  have "dropWhile P xs = []"
  proof (rule ccontr)
    assume ne: "dropWhile P xs \<noteq> []"
    then have "\<not> P (hd (dropWhile P xs))"
      by (rule hd_dropWhile)
    moreover have "hd (dropWhile P xs) \<in> set (dropWhile P xs)"
      using ne by (rule hd_in_set)
    ultimately show False
      using all by blast
  qed
  then show "\<forall>x \<in> set xs. P x"
    by (simp only: dropWhile_eq_Nil_conv)
next
  assume "\<forall>x \<in> set xs. P x"
  then show "\<forall>x \<in> set (dropWhile P xs). P x"
    by (blast dest: set_dropWhileD)
qed

lemma trim_empty_iff: "trim s = [] \<longleftrightarrow> list_all isWhiteSpace s"
  by (simp add: trim_def dropWhile_all_iff list_all_iff)

text \<open>
  Claim C10, for every behaviour of the \<open>URL\<close> constructor. An input that is empty or
  all white space is invalid with no normalized URL. An input whose trimmed form has no
  http or https scheme prefix is parsed with \<open>https://\<close> put in front: if that parses to
  an https URL the input is valid with the parsed \<open>href\<close>, and if it does not parse the
  input is invalid. A valid result always comes from a parsed URL whose protocol is
  \<open>http:\<close> or \<open>https:\<close>, and carries its \<open>href\<close>.
\<close>

theorem validate_url:
  "(list_all isWhiteSpace rawUrl \<longrightarrow>
      validateAndNormalizeUrl newURL rawUrl = \<lparr> isValid = False, normalizedUrl = None \<rparr>)
   \<and> (\<not> list_all isWhiteSpace rawUrl \<and> \<not> hasHttpScheme (trim rawUrl)
        \<and> newURL (''https://'' @ trim rawUrl) = Some u \<and> toLowerCase (protocol u) = ''https:''
      \<longrightarrow> validateAndNormalizeUrl newURL rawUrl
            = \<lparr> isValid = True, normalizedUrl = Some (href u) \<rparr>)
   \<and> (\<not> list_all isWhiteSpace rawUrl \<and> \<not> hasHttpScheme (trim rawUrl)
        \<and> newURL (''https://'' @ trim rawUrl) = None
      \<longrightarrow> validateAndNormalizeUrl newURL rawUrl
            = \<lparr> isValid = False, normalizedUrl = None \<rparr>)
   \<and> (isValid (validateAndNormalizeUrl newURL rawUrl) \<longrightarrow>
        (\<exists>v. newURL (if hasHttpScheme (trim rawUrl) then trim rawUrl
                       else ''https://'' @ trim rawUrl) = Some v
           \<and> (toLowerCase (protocol v) = ''http:'' \<or> toLowerCase (protocol v) = ''https:'')
           \<and> normalizedUrl (validateAndNormalizeUrl newURL rawUrl) = Some (href v)))"
  by (auto simp: validateAndNormalizeUrl_def Let_def trim_empty_iff
           split: option.splits if_splits)

text \<open>
  The theorem for an input of a space, a no-break space and a tab, for \<open>google.com\<close>
  between a no-break space and a space, and for \<open>example.org\<close>, with a parser that
  accepts \<open>https://google.com\<close> only.
\<close>

theorem validate_url_witness:
  "validateAndNormalizeUrl googleOnly [CHR '' '', CHR 0xA0, CHR 0x09]
       = \<lparr> isValid = False, normalizedUrl = None \<rparr>
   \<and> validateAndNormalizeUrl googleOnly (CHR 0xA0 # ''google.com '')
       = \<lparr> isValid = True, normalizedUrl = Some ''https://google.com/'' \<rparr>
   \<and> validateAndNormalizeUrl googleOnly ''example.org''
       = \<lparr> isValid = False, normalizedUrl = None \<rparr>"
  using validate_url [of "[CHR '' '', CHR 0xA0, CHR 0x09]" googleOnly
      "\<lparr> protocol = ''https:'', href = ''https://google.com/'' \<rparr>"]
    validate_url [of "CHR 0xA0 # ''google.com ''" googleOnly
      "\<lparr> protocol = ''https:'', href = ''https://google.com/'' \<rparr>"]
    validate_url [of "''example.org''" googleOnly
      "\<lparr> protocol = ''https:'', href = ''https://google.com/'' \<rparr>"]
  by (simp add: googleOnly_def isWhiteSpace_def trim_def hasHttpScheme_def toLowerCase_def
        toLowerChar_def)

end
